theory Spec2Isabelle
  imports Complex_Main
begin

section \<open>JavaScript values\<close>

text \<open>
  The values the search tool of \<^verbatim>\<open>src/index.ts\<close> handles: what \<^verbatim>\<open>JSON.parse\<close> can
  return, and \<^verbatim>\<open>undefined\<close>, the result of reading a property that is not there.
  A number is represented by the value it denotes (the program never computes with
  numbers, it only tests, forwards and prints them). A string is a list of characters.
  An object is the list of its own properties, each key once, in the order in which
  the engine enumerates them.
\<close>

datatype js =
    JUndefined
  | JNull
  | JBool bool
  | JNum rat
  | JStr string
  | JArr "js list"
  | JObj "(string \<times> js) list"

text \<open>
  What a \<^verbatim>\<open>catch\<close> clause can receive: an instance of \<^verbatim>\<open>Error\<close> with its
  \<^verbatim>\<open>message\<close>, or any other thrown value.
\<close>

datatype thrown = JsError string | JsOther

text \<open>
  The parts of the JavaScript engine that the source leaves to the platform: how a
  number is printed, and the wording of the two \<^verbatim>\<open>TypeError\<close>s the handler can
  provoke (reading a property of \<^verbatim>\<open>undefined\<close> or \<^verbatim>\<open>null\<close>; converting to a
  string an object that has no callable \<^verbatim>\<open>toString\<close>).
\<close>

record runtime =
  number_to_string :: "rat \<Rightarrow> string"
  cannot_read_message :: "js \<Rightarrow> string \<Rightarrow> string"
  cannot_convert_message :: string

text \<open>A computation that either throws or returns; \<open>Inl\<close> is the thrown value.\<close>

definition and_then :: "thrown + 'a \<Rightarrow> ('a \<Rightarrow> thrown + 'b) \<Rightarrow> thrown + 'b" where
  "and_then m f = (case m of Inl e \<Rightarrow> Inl e | Inr v \<Rightarrow> f v)"

text \<open>\<^verbatim>\<open>try { body } catch (e) { handler }\<close>\<close>

definition try_catch :: "thrown + 'a \<Rightarrow> (thrown \<Rightarrow> thrown + 'a) \<Rightarrow> thrown + 'a" where
  "try_catch body handler = (case body of Inl e \<Rightarrow> handler e | Inr v \<Rightarrow> Inr v)"

text \<open>
  Truthiness, as \<^verbatim>\<open>||\<close> and \<^verbatim>\<open>if\<close> test it: \<^verbatim>\<open>undefined\<close>, \<^verbatim>\<open>null\<close>,
  \<^verbatim>\<open>false\<close>, zero and the empty string are falsy, every array and object is truthy.
\<close>

fun truthy :: "js \<Rightarrow> bool" where
  "truthy JUndefined = False"
| "truthy JNull = False"
| "truthy (JBool b) = b"
| "truthy (JNum n) = (n \<noteq> 0)"
| "truthy (JStr s) = (s \<noteq> [])"
| "truthy (JArr xs) = True"
| "truthy (JObj kvs) = True"

text \<open>\<^verbatim>\<open>a || b\<close>\<close>

definition js_or :: "js \<Rightarrow> js \<Rightarrow> js" where
  "js_or a b = (if truthy a then a else b)"

text \<open>The value of an own property, \<^verbatim>\<open>undefined\<close> when the key is not there.\<close>

definition own_prop :: "(string \<times> js) list \<Rightarrow> string \<Rightarrow> js" where
  "own_prop kvs key = (case map_of kvs key of None \<Rightarrow> JUndefined | Some v \<Rightarrow> v)"

text \<open>
  Reading a named property \<^verbatim>\<open>v.key\<close>. The handler reads \<^verbatim>\<open>error\<close>, \<^verbatim>\<open>message\<close>,
  \<^verbatim>\<open>choices\<close>, \<^verbatim>\<open>content\<close> and \<^verbatim>\<open>citations\<close>; none of these is inherited from a
  prototype, so only an object's own properties can answer. Reading from
  \<^verbatim>\<open>undefined\<close> or \<^verbatim>\<open>null\<close> throws a \<^verbatim>\<open>TypeError\<close>.
\<close>

fun get_prop :: "runtime \<Rightarrow> js \<Rightarrow> string \<Rightarrow> thrown + js" where
  "get_prop rt JUndefined key = Inl (JsError (cannot_read_message rt JUndefined key))"
| "get_prop rt JNull key = Inl (JsError (cannot_read_message rt JNull key))"
| "get_prop rt (JObj kvs) key = Inr (own_prop kvs key)"
| "get_prop rt v key = Inr JUndefined"

text \<open>
  Reading the element \<^verbatim>\<open>v[0]\<close>: the first element of an array, the first character
  of a string, the property \<^verbatim>\<open>"0"\<close> of an object.
\<close>

fun get_index0 :: "runtime \<Rightarrow> js \<Rightarrow> thrown + js" where
  "get_index0 rt JUndefined = Inl (JsError (cannot_read_message rt JUndefined ''0''))"
| "get_index0 rt JNull = Inl (JsError (cannot_read_message rt JNull ''0''))"
| "get_index0 rt (JArr xs) = Inr (case xs of [] \<Rightarrow> JUndefined | x # _ \<Rightarrow> x)"
| "get_index0 rt (JStr s) = Inr (case s of [] \<Rightarrow> JUndefined | c # _ \<Rightarrow> JStr [c])"
| "get_index0 rt (JObj kvs) = Inr (own_prop kvs ''0'')"
| "get_index0 rt v = Inr JUndefined"

text \<open>Joining strings with a separator, as \<^verbatim>\<open>Array.prototype.join\<close> does.\<close>

fun join :: "string \<Rightarrow> string list \<Rightarrow> string" where
  "join sep [] = []"
| "join sep [s] = s"
| "join sep (s # t # ss) = s @ sep @ join sep (t # ss)"

text \<open>All results of a list of computations, or the first thrown value.\<close>

fun all_or_first_thrown :: "(thrown + 'a) list \<Rightarrow> thrown + 'a list" where
  "all_or_first_thrown [] = Inr []"
| "all_or_first_thrown (m # ms) =
     and_then m (\<lambda>v. and_then (all_or_first_thrown ms) (\<lambda>vs. Inr (v # vs)))"

text \<open>
  The conversion to a string that a template literal performs. An array is joined
  with commas, \<^verbatim>\<open>undefined\<close> and \<^verbatim>\<open>null\<close> elements printing as nothing. An object
  prints as \<^verbatim>\<open>[object Object]\<close>, unless it has an own property \<^verbatim>\<open>toString\<close>: parsed
  JSON holds no function, so that property is not callable, \<^verbatim>\<open>valueOf\<close> returns
  the object itself, and the conversion throws a \<^verbatim>\<open>TypeError\<close>.
\<close>

fun to_string :: "runtime \<Rightarrow> js \<Rightarrow> thrown + string" where
  "to_string rt JUndefined = Inr ''undefined''"
| "to_string rt JNull = Inr ''null''"
| "to_string rt (JBool b) = Inr (if b then ''true'' else ''false'')"
| "to_string rt (JNum n) = Inr (number_to_string rt n)"
| "to_string rt (JStr s) = Inr s"
| "to_string rt (JArr xs) =
     and_then
       (all_or_first_thrown
          (map (\<lambda>x. if x = JUndefined \<or> x = JNull then Inr [] else to_string rt x) xs))
       (\<lambda>parts. Inr (join '','' parts))"
| "to_string rt (JObj kvs) =
     (if ''toString'' \<in> fst ` set kvs then Inl (JsError (cannot_convert_message rt))
      else Inr ''[object Object]'')"

section \<open>\<^verbatim>\<open>JSON.stringify\<close>\<close>

text \<open>
  Quoting a string: the named escapes, \<^verbatim>\<open>\u00XX\<close> for the other control
  characters, every other character as it is.
\<close>

definition hex_digit :: "nat \<Rightarrow> char" where
  "hex_digit n = ''0123456789abcdef'' ! n"

definition quote_char :: "char \<Rightarrow> string" where
  "quote_char c =
     (if c = CHR 0x08 then [CHR 0x5C, CHR ''b'']
      else if c = CHR 0x09 then [CHR 0x5C, CHR ''t'']
      else if c = CHR 0x0A then [CHR 0x5C, CHR ''n'']
      else if c = CHR 0x0C then [CHR 0x5C, CHR ''f'']
      else if c = CHR 0x0D then [CHR 0x5C, CHR ''r'']
      else if c = CHR 0x22 then [CHR 0x5C, CHR 0x22]
      else if c = CHR 0x5C then [CHR 0x5C, CHR 0x5C]
      else if (of_char c :: nat) < 32 then
        [CHR 0x5C, CHR ''u'', CHR ''0'', CHR ''0'',
         hex_digit (of_char c div 16), hex_digit (of_char c mod 16)]
      else [c])"

definition quote_json_string :: "string \<Rightarrow> string" where
  "quote_json_string s = CHR 0x22 # concat (map quote_char s) @ [CHR 0x22]"

text \<open>
  The members of an array or object between their brackets: nothing when there are
  none, separated by commas when there is no indentation, and otherwise one per
  line, indented one step further than the enclosing value.
\<close>

definition wrap_members :: "string \<Rightarrow> string \<Rightarrow> string \<Rightarrow> string \<Rightarrow> string list \<Rightarrow> string" where
  "wrap_members opening closing gap stepback partial =
     (let indent = stepback @ gap in
      if partial = [] then opening @ closing
      else if gap = [] then opening @ join '','' partial @ closing
      else opening @ [CHR 0x0A] @ indent
             @ join ('','' @ [CHR 0x0A] @ indent) partial
             @ [CHR 0x0A] @ stepback @ closing)"

text \<open>
  Serialising one value at the indentation \<open>stepback\<close>; \<open>None\<close> is \<^verbatim>\<open>undefined\<close>,
  the result for a value that has no JSON text. Such a value prints as \<^verbatim>\<open>null\<close>
  inside an array, and a property holding it is left out of its object.
\<close>

fun serialize :: "runtime \<Rightarrow> string \<Rightarrow> string \<Rightarrow> js \<Rightarrow> string option" where
  "serialize rt gap stepback JUndefined = None"
| "serialize rt gap stepback JNull = Some ''null''"
| "serialize rt gap stepback (JBool b) = Some (if b then ''true'' else ''false'')"
| "serialize rt gap stepback (JNum n) = Some (number_to_string rt n)"
| "serialize rt gap stepback (JStr s) = Some (quote_json_string s)"
| "serialize rt gap stepback (JArr xs) =
     Some (wrap_members ''['' '']'' gap stepback
       (map (\<lambda>x. case serialize rt gap (stepback @ gap) x of
                    None \<Rightarrow> ''null'' | Some s \<Rightarrow> s) xs))"
| "serialize rt gap stepback (JObj kvs) =
     Some (wrap_members ''{'' ''}'' gap stepback
       (concat (map (\<lambda>kv. case serialize rt gap (stepback @ gap) (snd kv) of
                    None \<Rightarrow> []
                  | Some s \<Rightarrow>
                      [quote_json_string (fst kv) @ '':''
                         @ (if gap = [] then [] else '' '') @ s]) kvs)))"

text \<open>
  \<^verbatim>\<open>JSON.stringify(value)\<close> with \<open>gap = []\<close> and \<^verbatim>\<open>JSON.stringify(value, null, 2)\<close>
  with a gap of two spaces. The handler serialises object literals only, for which
  the result is a string; the result \<^verbatim>\<open>undefined\<close> for the value \<^verbatim>\<open>undefined\<close>
  is not a string and is rendered here as the empty one.
\<close>

definition JSON_stringify :: "runtime \<Rightarrow> string \<Rightarrow> js \<Rightarrow> string" where
  "JSON_stringify rt gap v = (case serialize rt gap [] v of None \<Rightarrow> [] | Some s \<Rightarrow> s)"

section \<open>Printing numbers\<close>

definition digit :: "nat \<Rightarrow> char" where
  "digit n = ''0123456789'' ! n"

text \<open>The decimal digits of a natural number, as an integer status code is printed.\<close>

fun decimal :: "nat \<Rightarrow> string" where
  "decimal n = (if n < 10 then [digit n] else decimal (n div 10) @ [digit (n mod 10)])"

declare decimal.simps [simp del]

text \<open>The number that a string of decimal digits denotes.\<close>

definition decimal_value :: "string \<Rightarrow> nat" where
  "decimal_value s = foldl (\<lambda>acc c. 10 * acc + (of_char c - 48)) 0 s"

fun fraction_digits :: "nat \<Rightarrow> rat \<Rightarrow> string" where
  "fraction_digits 0 r = []"
| "fraction_digits (Suc fuel) r =
     (if r = 0 then []
      else (let d = nat \<lfloor>r * 10\<rfloor> in digit d # fraction_digits fuel (r * 10 - of_nat d)))"

text \<open>
  A number printer for examples: the sign, the integer part, and up to seventeen
  digits of the fraction. It prints integers below \<open>10\<^sup>2\<^sup>1\<close> and short decimal
  fractions such as \<^verbatim>\<open>0.2\<close> the way the engine prints the numbers they denote.
\<close>

definition plain_number_to_string :: "rat \<Rightarrow> string" where
  "plain_number_to_string q =
     (let a = \<bar>q\<bar>; whole = nat \<lfloor>a\<rfloor>; r = a - of_nat whole in
      (if q < 0 then ''-'' else []) @ decimal whole
        @ (if r = 0 then [] else ''.'' @ fraction_digits 17 r))"

text \<open>An engine for examples, with the wording of Node.js for the two errors.\<close>

definition node :: runtime where
  "node = \<lparr>
     number_to_string = plain_number_to_string,
     cannot_read_message = (\<lambda>v key.
       ''Cannot read properties of '' @ (if v = JNull then ''null'' else ''undefined'')
         @ '' (reading '' @ [CHR 0x27] @ key @ [CHR 0x27] @ '')''),
     cannot_convert_message = ''Cannot convert object to primitive value'' \<rparr>"

section \<open>Configuration\<close>

text \<open>
  \<^verbatim>\<open>configSchema\<close> is built from four schemas of the zod library. A schema takes
  an input value and returns the parsed value or an issue; \<^verbatim>\<open>.default(d)\<close>
  replaces the input \<^verbatim>\<open>undefined\<close> by \<open>d\<close> and passes every other input on.
\<close>

datatype zod_issue = InvalidType | InvalidEnumValue

definition z_string :: "js \<Rightarrow> zod_issue + string" where
  "z_string v = (case v of JStr s \<Rightarrow> Inr s | _ \<Rightarrow> Inl InvalidType)"

definition z_number :: "js \<Rightarrow> zod_issue + rat" where
  "z_number v = (case v of JNum n \<Rightarrow> Inr n | _ \<Rightarrow> Inl InvalidType)"

definition z_enum :: "string list \<Rightarrow> js \<Rightarrow> zod_issue + string" where
  "z_enum options v =
     (case v of
        JStr s \<Rightarrow> if s \<in> set options then Inr s else Inl InvalidEnumValue
      | _ \<Rightarrow> Inl InvalidType)"

definition z_default :: "(js \<Rightarrow> zod_issue + 'a) \<Rightarrow> 'a \<Rightarrow> js \<Rightarrow> zod_issue + 'a" where
  "z_default schema d v = (if v = JUndefined then Inr d else schema v)"

definition z_optional :: "(js \<Rightarrow> zod_issue + 'a) \<Rightarrow> js \<Rightarrow> zod_issue + 'a option" where
  "z_optional schema v =
     (if v = JUndefined then Inr None
      else case schema v of Inl issue \<Rightarrow> Inl issue | Inr x \<Rightarrow> Inr (Some x))"

text \<open>The issues of one key of an object schema, each with the key it is about.\<close>

definition issues_at :: "string \<Rightarrow> zod_issue + 'a \<Rightarrow> (string \<times> zod_issue) list" where
  "issues_at key r = (case r of Inl issue \<Rightarrow> [(key, issue)] | Inr _ \<Rightarrow> [])"

record config =
  perplexityApiKey :: string
  model :: string
  maxTokens :: rat
  temperature :: rat

text \<open>
  \<^verbatim>\<open>configSchema.parse(config)\<close>: the input must be an object; each key of the
  schema is parsed from the property of that name, other properties are dropped;
  the parse throws a \<^verbatim>\<open>ZodError\<close> holding the issues when there is any.
\<close>

definition configSchema_parse :: "js \<Rightarrow> (string \<times> zod_issue) list + config" where
  "configSchema_parse input =
     (case input of
        JObj kvs \<Rightarrow>
          (let k = z_string (own_prop kvs ''perplexityApiKey'');
               m = z_default (z_enum [''sonar'', ''sonar-pro'']) ''sonar-pro''
                     (own_prop kvs ''model'');
               t = z_default z_number 8192 (own_prop kvs ''maxTokens'');
               c = z_default z_number (2 / 10) (own_prop kvs ''temperature'')
           in case (k, m, t, c) of
                (Inr k', Inr m', Inr t', Inr c') \<Rightarrow>
                  Inr \<lparr>perplexityApiKey = k', model = m', maxTokens = t', temperature = c'\<rparr>
              | _ \<Rightarrow>
                  Inl (issues_at ''perplexityApiKey'' k @ issues_at ''model'' m
                         @ issues_at ''maxTokens'' t @ issues_at ''temperature'' c))
      | _ \<Rightarrow> Inl [([], InvalidType)])"

section \<open>The search tool\<close>

text \<open>
  The arguments of one call, as the tool's input schema types them: \<^verbatim>\<open>query\<close> is a
  string, \<^verbatim>\<open>search_recency_filter\<close> is optional.
\<close>

record request =
  query :: string
  search_recency_filter :: "string option"

definition recency_filters :: "string list" where
  "recency_filters = [''month'', ''week'', ''day'', ''hour'']"

definition inputSchema_parse :: "js \<Rightarrow> (string \<times> zod_issue) list + request" where
  "inputSchema_parse input =
     (case input of
        JObj kvs \<Rightarrow>
          (let q = z_string (own_prop kvs ''query'');
               f = z_optional (z_enum recency_filters) (own_prop kvs ''search_recency_filter'')
           in case (q, f) of
                (Inr q', Inr f') \<Rightarrow> Inr \<lparr>query = q', search_recency_filter = f'\<rparr>
              | _ \<Rightarrow> Inl (issues_at ''query'' q @ issues_at ''search_recency_filter'' f))
      | _ \<Rightarrow> Inl [([], InvalidType)])"

definition optional_string :: "string option \<Rightarrow> js" where
  "optional_string s = (case s of None \<Rightarrow> JUndefined | Some t \<Rightarrow> JStr t)"

text \<open>The \<^verbatim>\<open>payload\<close> object of the handler, as the list of its properties.\<close>

definition build_payload :: "config \<Rightarrow> request \<Rightarrow> (string \<times> js) list" where
  "build_payload parsedConfig request =
     (let payload =
            [(''model'', JStr (model parsedConfig)),
             (''messages'',
                JArr [JObj [(''role'', JStr ''user''), (''content'', JStr (query request))]]),
             (''max_tokens'', JNum (maxTokens parsedConfig)),
             (''temperature'', JNum (temperature parsedConfig))];
          filter_value = optional_string (search_recency_filter request)
      in if truthy filter_value
         then payload @ [(''search_recency_filter'', filter_value)]
         else payload)"

text \<open>What \<^verbatim>\<open>fetch\<close> is called with.\<close>

record http_request =
  url :: string
  http_method :: string
  headers :: "(string \<times> string) list"
  body :: string

definition fetch_arguments :: "runtime \<Rightarrow> config \<Rightarrow> (string \<times> js) list \<Rightarrow> http_request" where
  "fetch_arguments rt parsedConfig payload =
     \<lparr>url = ''https://api.perplexity.ai/chat/completions'',
      http_method = ''POST'',
      headers = [(''Authorization'', ''Bearer '' @ perplexityApiKey parsedConfig),
                 (''Content-Type'', ''application/json'')],
      body = JSON_stringify rt [] (JObj payload)\<rparr>"

text \<open>
  What \<^verbatim>\<open>fetch\<close> resolves to: the status code, and the outcome of
  \<^verbatim>\<open>response.json()\<close>, which throws when the body is not JSON.
\<close>

record response =
  status :: nat
  json :: "thrown + js"

definition ok :: "response \<Rightarrow> bool" where
  "ok r = (200 \<le> status r \<and> status r \<le> 299)"

text \<open>The value the handler returns; \<open>isError\<close> is \<open>None\<close> when the key is left out.\<close>

record text_content =
  content_type :: string
  content_text :: string

record tool_result =
  content :: "text_content list"
  isError :: "bool option"

definition error_result :: "string \<Rightarrow> tool_result" where
  "error_result errorMessage =
     \<lparr>content = [\<lparr>content_type = ''text'', content_text = ''Perplexity API error: '' @ errorMessage\<rparr>],
      isError = Some True\<rparr>"

definition success_result :: "string \<Rightarrow> tool_result" where
  "success_result t = \<lparr>content = [\<lparr>content_type = ''text'', content_text = t\<rparr>], isError = None\<rparr>"

text \<open>\<^verbatim>\<open>errorData.error || errorData.message || errorMessage\<close>, the second property read
  only when the first is falsy.\<close>

definition error_or_message :: "runtime \<Rightarrow> js \<Rightarrow> js \<Rightarrow> thrown + js" where
  "error_or_message rt errorData errorMessage =
     and_then (get_prop rt errorData ''error'') (\<lambda>e.
       if truthy e then Inr e
       else and_then (get_prop rt errorData ''message'') (\<lambda>m.
         Inr (js_or m errorMessage)))"

text \<open>\<^verbatim>\<open>responseData.choices[0].message.content\<close>\<close>

definition choices0_message_content :: "runtime \<Rightarrow> js \<Rightarrow> thrown + js" where
  "choices0_message_content rt responseData =
     and_then (get_prop rt responseData ''choices'') (\<lambda>choices.
     and_then (get_index0 rt choices) (\<lambda>choice.
     and_then (get_prop rt choice ''message'') (\<lambda>message.
     get_prop rt message ''content'')))"

text \<open>
  The handler registered for the tool \<^verbatim>\<open>search\<close>. \<open>fetch\<close> is the outbound HTTP
  call: it throws on a transport failure and returns the response otherwise. The
  result \<open>Inl\<close> would be a rejection escaping to the caller. The diagnostic line
  that the handler writes to the error stream is not part of the result; it is
  modelled below, with the rest of the handler's environment.
\<close>

definition search_handler ::
  "runtime \<Rightarrow> config \<Rightarrow> (http_request \<Rightarrow> thrown + response) \<Rightarrow> request \<Rightarrow> thrown + tool_result" where
  "search_handler rt parsedConfig fetch request =
     try_catch
       (let payload = build_payload parsedConfig request in
        and_then (fetch (fetch_arguments rt parsedConfig payload)) (\<lambda>response.
          if \<not> ok response then
            (let errorMessage = JStr (''HTTP error! status: '' @ decimal (status response)) in
             and_then
               (try_catch
                  (and_then (json response) (\<lambda>errorData.
                     error_or_message rt errorData errorMessage))
                  (\<lambda>_. Inr errorMessage))
               (\<lambda>errorMessage.
                  and_then (to_string rt errorMessage) (\<lambda>s. Inr (error_result s))))
          else
            and_then (json response) (\<lambda>responseData.
            and_then (choices0_message_content rt responseData) (\<lambda>content.
            and_then (get_prop rt responseData ''citations'') (\<lambda>citations.
              let formattedResponse =
                    JObj [(''content'', content), (''citations'', js_or citations (JArr []))]
              in Inr (success_result (JSON_stringify rt ''  '' formattedResponse)))))))
       (\<lambda>error.
          let errorMessage =
                (case error of JsError message \<Rightarrow> message | JsOther \<Rightarrow> ''Unknown error occurred'')
          in Inr (error_result errorMessage))"




text \<open>
  \<^verbatim>\<open>createServer\<close>: the configuration is parsed once, and the handler is registered
  with the parsed configuration; a configuration that does not parse throws here.
\<close>

definition createServer ::
  "runtime \<Rightarrow> js \<Rightarrow>
     (string \<times> zod_issue) list
       + ((http_request \<Rightarrow> thrown + response) \<Rightarrow> request \<Rightarrow> thrown + tool_result)" where
  "createServer rt config =
     (case configSchema_parse config of
        Inl issues \<Rightarrow> Inl issues
      | Inr parsedConfig \<Rightarrow> Inr (search_handler rt parsedConfig))"

section \<open>Example inputs\<close>

text \<open>A remote side whose answer does not depend on the request.\<close>

definition remote_outcome :: "thrown + response \<Rightarrow> http_request \<Rightarrow> thrown + response" where
  "remote_outcome outcome request = outcome"

text \<open>
  A remote side that fails every request with an error whose message is what
  \<open>observe\<close> sees of the request; the handler's result then shows the request.
\<close>

definition echo_fetch :: "(http_request \<Rightarrow> string) \<Rightarrow> http_request \<Rightarrow> thrown + response" where
  "echo_fetch observe r = Inl (JsError (observe r))"

definition default_config :: config where
  "default_config =
     \<lparr>perplexityApiKey = ''secret'', model = ''sonar-pro'', maxTokens = 8192,
      temperature = 2 / 10\<rparr>"

definition france_request :: request where
  "france_request =
     \<lparr>query = ''What is the capital of France?'', search_recency_filter = None\<rparr>"

definition week_request :: request where
  "week_request = \<lparr>query = ''What is new?'', search_recency_filter = Some ''week''\<rparr>"





section \<open>Basic facts\<close>

lemma and_then_Inl [simp]: "and_then (Inl e) f = Inl e"
  by (simp add: and_then_def)

lemma and_then_Inr [simp]: "and_then (Inr v) f = f v"
  by (simp add: and_then_def)

lemma try_catch_Inl [simp]: "try_catch (Inl e) h = h e"
  by (simp add: try_catch_def)

lemma try_catch_Inr [simp]: "try_catch (Inr v) h = Inr v"
  by (simp add: try_catch_def)

text \<open>Serialising an object always gives a string.\<close>

lemma serialize_object_defined: "\<exists>s. serialize rt gap stepback (JObj kvs) = Some s"
  by simp

text \<open>The printed digits of a number denote that number.\<close>

lemma of_char_digit: "n < 10 \<Longrightarrow> of_char (digit n) = 48 + n"
proof -
  assume "n < 10"
  then have "n \<in> {0, 1, 2, 3, 4, 5, 6, 7, 8, 9}" by auto
  then show ?thesis by (auto simp add: digit_def)
qed

lemma decimal_value_decimal: "decimal_value (decimal n) = n"
proof (induction n rule: decimal.induct)
  case (1 n)
  show ?case
  proof (cases "n < 10")
    case True
    then show ?thesis
      by (simp add: decimal.simps [of n] decimal_value_def of_char_digit)
  next
    case False
    have "decimal_value (decimal n) = 10 * decimal_value (decimal (n div 10)) + n mod 10"
      using False by (simp add: decimal.simps [of n] decimal_value_def of_char_digit)
    then show ?thesis using 1 False by simp
  qed
qed

lemma print_8192: "plain_number_to_string 8192 = ''8192''"
  by (simp add: plain_number_to_string_def decimal.simps digit_def)

lemma print_0_2: "plain_number_to_string (1 / 5) = ''0.2''"
  by (simp add: plain_number_to_string_def decimal.simps digit_def eval_nat_numeral)

text \<open>
  The handler calls \<open>fetch\<close> once, and its result depends on nothing but the
  engine and what that call returned.
\<close>

lemma search_handler_after_fetch:
  "fetch (fetch_arguments rt parsedConfig (build_payload parsedConfig request)) = outcome \<Longrightarrow>
   search_handler rt parsedConfig fetch request
     = search_handler rt c (remote_outcome outcome) q"
  by (simp add: search_handler_def remote_outcome_def)

text \<open>The result is a success result or an error result, never a thrown value.\<close>

lemma search_handler_result:
  "(\<exists>t. search_handler rt parsedConfig fetch request = Inr (success_result t))
   \<or> (\<exists>m. search_handler rt parsedConfig fetch request = Inr (error_result m))"
proof (cases "fetch (fetch_arguments rt parsedConfig (build_payload parsedConfig request))")
  case (Inl e)
  then show ?thesis
    by (auto simp add: search_handler_def)
next
  case (Inr response)
  let ?fallback = "JStr (''HTTP error! status: '' @ decimal (status response))"
  show ?thesis
  proof (cases "ok response")
    case False
    obtain v where v:
      "try_catch (and_then (json response) (\<lambda>errorData. error_or_message rt errorData ?fallback))
         (\<lambda>_. Inr ?fallback) = Inr v"
      by (cases "and_then (json response) (\<lambda>errorData. error_or_message rt errorData ?fallback)")
        auto
    show ?thesis using Inr False v
      by (cases "to_string rt v") (auto simp add: search_handler_def)
  next
    case True
    then show ?thesis using Inr
      by (cases "json response")
        (auto simp add: search_handler_def Let_def and_then_def split: sum.splits)
  qed
qed

text \<open>The non-2xx branch, once the message has been chosen and converted.\<close>

lemma non_ok_result:
  assumes "fetch (fetch_arguments rt parsedConfig (build_payload parsedConfig request)) = Inr response"
    and "\<not> ok response"
    and "try_catch (and_then (json response) (\<lambda>errorData. error_or_message rt errorData
            (JStr (''HTTP error! status: '' @ decimal (status response)))))
          (\<lambda>_. Inr (JStr (''HTTP error! status: '' @ decimal (status response)))) = Inr v"
    and "to_string rt v = Inr s"
  shows "search_handler rt parsedConfig fetch request = Inr (error_result s)"
  using assms by (simp add: search_handler_def)

text \<open>A request that the input schema accepts has no filter or one of the four.\<close>

lemma inputSchema_parse_filter:
  assumes "inputSchema_parse input = Inr request"
  shows "search_recency_filter request = None
       \<or> (\<exists>f. search_recency_filter request = Some f \<and> f \<in> set recency_filters)"
proof -
  obtain kvs where kvs: "input = JObj kvs"
    using assms by (cases input) (simp_all add: inputSchema_parse_def)
  have "z_optional (z_enum recency_filters) (own_prop kvs ''search_recency_filter'')
          = Inr (search_recency_filter request)"
    using assms unfolding kvs inputSchema_parse_def
    by (auto simp add: Let_def split: sum.splits)
  then show ?thesis
    by (auto simp add: z_optional_def z_enum_def split: if_splits sum.splits js.splits)
qed



section \<open>Every call returns a result\<close>

text \<open>
  C1. Whatever the outbound call does (it throws, it answers with any status, the
  body parses to any value or does not parse), the handler returns a result, which
  is either a success result or an error result with \<open>isError\<close> true; no thrown
  value escapes.
\<close>

theorem search_handler_always_returns:
  "\<exists>r. search_handler rt parsedConfig fetch request = Inr r
       \<and> ((\<exists>t. r = success_result t \<and> isError r = None)
          \<or> (\<exists>m. r = error_result m \<and> isError r = Some True))"
  using search_handler_result [of rt parsedConfig fetch request]
  by (auto simp add: success_result_def error_result_def)

section \<open>The success result\<close>



section \<open>Remote errors\<close>

text \<open>
  C3, as the code has it. For a non-2xx response whose body is a JSON object with a
  truthy \<^verbatim>\<open>error\<close> field that converts to a string, the result is an error result
  whose text is \<^verbatim>\<open>Perplexity API error: \<close> followed by that string; when the field
  is a string, that string is the field itself.
\<close>

theorem remote_error_field:
  assumes "fetch (fetch_arguments rt parsedConfig (build_payload parsedConfig request)) = Inr response"
    and "\<not> ok response"
    and "json response = Inr (JObj kvs)"
    and "truthy (own_prop kvs ''error'')"
    and "to_string rt (own_prop kvs ''error'') = Inr s"
  shows "search_handler rt parsedConfig fetch request = Inr (error_result s)
       \<and> error_result s =
           \<lparr>content = [\<lparr>content_type = ''text'', content_text = ''Perplexity API error: '' @ s\<rparr>],
            isError = Some True\<rparr>
       \<and> (\<forall>t. own_prop kvs ''error'' = JStr t \<longrightarrow> s = t)"
  using assms
  by (auto simp add: non_ok_result error_or_message_def error_result_def)

text \<open>
  The scenario of the specification: status 401 with the body
  \<^verbatim>\<open>{"error":"Invalid API key"}\<close>.
\<close>

theorem remote_error_field_witness:
  "search_handler node default_config
     (remote_outcome (Inr \<lparr>status = 401, json = Inr (JObj [(''error'', JStr ''Invalid API key'')])\<rparr>))
     france_request
   = Inr \<lparr>content = [\<lparr>content_type = ''text'',
                       content_text = ''Perplexity API error: Invalid API key''\<rparr>],
          isError = Some True\<rparr>"
  using remote_error_field
    [of "remote_outcome (Inr \<lparr>status = 401, json = Inr (JObj [(''error'', JStr ''Invalid API key'')])\<rparr>)"
        node default_config france_request
        "\<lparr>status = 401, json = Inr (JObj [(''error'', JStr ''Invalid API key'')])\<rparr>"
        "[(''error'', JStr ''Invalid API key'')]" "''Invalid API key''"]
  by (simp add: remote_outcome_def ok_def own_prop_def)

text \<open>
  C3 as stated fails where the \<^verbatim>\<open>error\<close> field is the empty string: status 401
  with the body \<^verbatim>\<open>{"error":""}\<close> gives the message with the status code, not the
  empty value of the field.
\<close>

theorem remote_error_field_counterexample:
  "search_handler node default_config
     (remote_outcome (Inr \<lparr>status = 401, json = Inr (JObj [(''error'', JStr [])])\<rparr>))
     france_request
   = Inr (error_result ''HTTP error! status: 401'')
   \<and> error_result ''HTTP error! status: 401'' \<noteq> error_result []"
  by (simp add: search_handler_def remote_outcome_def ok_def error_or_message_def own_prop_def
      js_or_def error_result_def decimal.simps digit_def)

text \<open>
  C4. For a non-2xx response whose body does not parse as JSON, the result is the
  error result with the message \<^verbatim>\<open>HTTP error! status: \<close> followed by the decimal
  digits of the status code; so its text contains these digits, and the digits
  denote the status code.
\<close>

theorem unparsable_body_status:
  assumes "fetch (fetch_arguments rt parsedConfig (build_payload parsedConfig request)) = Inr response"
    and "\<not> ok response"
    and "json response = Inl e"
  shows "search_handler rt parsedConfig fetch request
           = Inr (error_result (''HTTP error! status: '' @ decimal (status response)))
       \<and> (\<exists>before after.
             content (error_result (''HTTP error! status: '' @ decimal (status response)))
               = [\<lparr>content_type = ''text'',
                   content_text = before @ decimal (status response) @ after\<rparr>])
       \<and> decimal_value (decimal (status response)) = status response"
proof (intro conjI)
  show "search_handler rt parsedConfig fetch request
           = Inr (error_result (''HTTP error! status: '' @ decimal (status response)))"
    using assms by (simp add: non_ok_result)
  have "content (error_result (''HTTP error! status: '' @ decimal (status response)))
          = [\<lparr>content_type = ''text'',
              content_text = ''Perplexity API error: HTTP error! status: ''
                               @ decimal (status response) @ []\<rparr>]"
    by (simp add: error_result_def)
  then show "\<exists>before after.
             content (error_result (''HTTP error! status: '' @ decimal (status response)))
               = [\<lparr>content_type = ''text'',
                   content_text = before @ decimal (status response) @ after\<rparr>]"
    by blast
  show "decimal_value (decimal (status response)) = status response"
    by (rule decimal_value_decimal)
qed

text \<open>Status 502 with a body that is not JSON.\<close>

theorem unparsable_body_status_witness:
  "search_handler node default_config
     (remote_outcome (Inr \<lparr>status = 502, json = Inl (JsError ''Unexpected token <'')\<rparr>))
     france_request
   = Inr \<lparr>content = [\<lparr>content_type = ''text'',
                       content_text = ''Perplexity API error: HTTP error! status: 502''\<rparr>],
          isError = Some True\<rparr>"
  using unparsable_body_status
    [of "remote_outcome (Inr \<lparr>status = 502, json = Inl (JsError ''Unexpected token <'')\<rparr>)"
        node default_config france_request
        "\<lparr>status = 502, json = Inl (JsError ''Unexpected token <'')\<rparr>" "JsError ''Unexpected token <''"]
  by (simp add: remote_outcome_def ok_def error_result_def decimal.simps digit_def)

text \<open>
  C9. In the non-2xx branch a falsy \<^verbatim>\<open>error\<close> field (absent, empty, zero, false
  or null) is passed over: the message is the \<^verbatim>\<open>message\<close> field when that is
  truthy, and the message with the status code when that is falsy too.
\<close>

theorem falsy_error_field:
  assumes "fetch (fetch_arguments rt parsedConfig (build_payload parsedConfig request)) = Inr response"
    and "\<not> ok response"
    and "json response = Inr (JObj kvs)"
    and "\<not> truthy (own_prop kvs ''error'')"
  shows "(\<forall>s. truthy (own_prop kvs ''message'') \<and> to_string rt (own_prop kvs ''message'') = Inr s
            \<longrightarrow> search_handler rt parsedConfig fetch request = Inr (error_result s))
       \<and> (\<not> truthy (own_prop kvs ''message'')
            \<longrightarrow> search_handler rt parsedConfig fetch request
                  = Inr (error_result (''HTTP error! status: '' @ decimal (status response))))"
  using assms
  by (auto simp add: non_ok_result error_or_message_def js_or_def)

text \<open>
  Status 401 with \<^verbatim>\<open>{"error":"","message":"Bad key"}\<close>, and with
  \<^verbatim>\<open>{"error":""}\<close>.
\<close>

theorem falsy_error_field_witness:
  "search_handler node default_config
     (remote_outcome (Inr \<lparr>status = 401, json = Inr (JObj [(''error'', JStr []), (''message'', JStr ''Bad key'')])\<rparr>))
     france_request
   = Inr (error_result ''Bad key'')
   \<and> search_handler node default_config
     (remote_outcome (Inr \<lparr>status = 401, json = Inr (JObj [(''error'', JStr [])])\<rparr>))
     france_request
   = Inr (error_result ''HTTP error! status: 401'')"
  using falsy_error_field
    [of "remote_outcome (Inr \<lparr>status = 401, json = Inr (JObj [(''error'', JStr []), (''message'', JStr ''Bad key'')])\<rparr>)"
        node default_config france_request
        "\<lparr>status = 401, json = Inr (JObj [(''error'', JStr []), (''message'', JStr ''Bad key'')])\<rparr>"
        "[(''error'', JStr []), (''message'', JStr ''Bad key'')]"]
    falsy_error_field
    [of "remote_outcome (Inr \<lparr>status = 401, json = Inr (JObj [(''error'', JStr [])])\<rparr>)"
        node default_config france_request
        "\<lparr>status = 401, json = Inr (JObj [(''error'', JStr [])])\<rparr>"
        "[(''error'', JStr [])]"]
  by (simp add: remote_outcome_def ok_def own_prop_def decimal.simps digit_def)

text \<open>
  C10. The text of every error result begins with \<^verbatim>\<open>Perplexity API error: \<close>. A
  thrown \<^verbatim>\<open>Error\<close> gives its message after the prefix; a thrown value that is not
  an \<^verbatim>\<open>Error\<close>, from the outbound call or from reading the body of a 2xx
  response, gives \<^verbatim>\<open>Perplexity API error: Unknown error occurred\<close>.
\<close>

theorem error_results_prefixed:
  "(\<forall>r. search_handler rt parsedConfig fetch request = Inr r \<and> isError r = Some True
       \<longrightarrow> (\<exists>m. content r =
              [\<lparr>content_type = ''text'', content_text = ''Perplexity API error: '' @ m\<rparr>]))
   \<and> (\<forall>message. fetch (fetch_arguments rt parsedConfig (build_payload parsedConfig request))
                   = Inl (JsError message)
       \<longrightarrow> search_handler rt parsedConfig fetch request = Inr (error_result message))
   \<and> (fetch (fetch_arguments rt parsedConfig (build_payload parsedConfig request)) = Inl JsOther
       \<longrightarrow> search_handler rt parsedConfig fetch request
             = Inr (error_result ''Unknown error occurred''))
   \<and> (\<forall>response. fetch (fetch_arguments rt parsedConfig (build_payload parsedConfig request))
                    = Inr response \<and> ok response \<and> json response = Inl JsOther
       \<longrightarrow> search_handler rt parsedConfig fetch request
             = Inr (error_result ''Unknown error occurred''))
   \<and> error_result ''Unknown error occurred'' =
       \<lparr>content = [\<lparr>content_type = ''text'',
                    content_text = ''Perplexity API error: Unknown error occurred''\<rparr>],
        isError = Some True\<rparr>"
proof -
  have "\<exists>m. content r =
          [\<lparr>content_type = ''text'', content_text = ''Perplexity API error: '' @ m\<rparr>]"
    if "search_handler rt parsedConfig fetch request = Inr r" and "isError r = Some True" for r
    using that search_handler_result [of rt parsedConfig fetch request]
    by (auto simp add: error_result_def success_result_def)
  then show ?thesis
    by (auto simp add: search_handler_def error_result_def)
qed

text \<open>
  A transport failure that throws a value that is no \<^verbatim>\<open>Error\<close>, one that throws
  an \<^verbatim>\<open>Error\<close>, and a 2xx response whose body cannot be read.
\<close>

theorem error_results_prefixed_witness:
  "search_handler node default_config (remote_outcome (Inl JsOther)) france_request
     = Inr \<lparr>content = [\<lparr>content_type = ''text'',
                        content_text = ''Perplexity API error: Unknown error occurred''\<rparr>],
            isError = Some True\<rparr>
   \<and> search_handler node default_config (remote_outcome (Inl (JsError ''fetch failed'')))
       france_request
     = Inr (error_result ''fetch failed'')
   \<and> search_handler node default_config
       (remote_outcome (Inr \<lparr>status = 200, json = Inl JsOther\<rparr>)) france_request
     = Inr (error_result ''Unknown error occurred'')"
  using error_results_prefixed [of node default_config "remote_outcome (Inl JsOther)" france_request]
    error_results_prefixed
      [of node default_config "remote_outcome (Inl (JsError ''fetch failed''))" france_request]
    error_results_prefixed
      [of node default_config "remote_outcome (Inr \<lparr>status = 200, json = Inl JsOther\<rparr>)"
          france_request]
  by (simp add: remote_outcome_def ok_def)

section \<open>The outbound request\<close>

text \<open>
  C5. Without a recency filter the payload has no key \<^verbatim>\<open>search_recency_filter\<close>;
  with one of \<^verbatim>\<open>month\<close>, \<^verbatim>\<open>week\<close>, \<^verbatim>\<open>day\<close>, \<^verbatim>\<open>hour\<close> it has that key once,
  holding exactly the filter. So for every request that the input schema accepts,
  the payload holds the filter exactly when the request does.
\<close>

theorem payload_recency_filter:
  "(search_recency_filter request = None
      \<longrightarrow> map_of (build_payload parsedConfig request) ''search_recency_filter'' = None)
   \<and> (\<forall>f \<in> set recency_filters. search_recency_filter request = Some f
      \<longrightarrow> map_of (build_payload parsedConfig request) ''search_recency_filter'' = Some (JStr f)
        \<and> length (filter (\<lambda>kv. fst kv = ''search_recency_filter'')
                     (build_payload parsedConfig request)) = 1)
   \<and> (\<forall>input. inputSchema_parse input = Inr request
      \<longrightarrow> map_of (build_payload parsedConfig request) ''search_recency_filter''
            = map_option JStr (search_recency_filter request))"
proof (intro conjI allI impI ballI)
  assume "search_recency_filter request = None"
  then show "map_of (build_payload parsedConfig request) ''search_recency_filter'' = None"
    by (simp add: build_payload_def optional_string_def)
next
  fix f
  assume "f \<in> set recency_filters" and "search_recency_filter request = Some f"
  then show "map_of (build_payload parsedConfig request) ''search_recency_filter'' = Some (JStr f)"
    and "length (filter (\<lambda>kv. fst kv = ''search_recency_filter'')
                     (build_payload parsedConfig request)) = 1"
    by (auto simp add: build_payload_def optional_string_def recency_filters_def)
next
  fix input
  assume "inputSchema_parse input = Inr request"
  then show "map_of (build_payload parsedConfig request) ''search_recency_filter''
            = map_option JStr (search_recency_filter request)"
    using inputSchema_parse_filter [of input request]
    by (auto simp add: build_payload_def optional_string_def recency_filters_def)
qed

text \<open>
  The call with the filter \<^verbatim>\<open>week\<close> and the call without a filter, both accepted by the
  input schema.
\<close>

theorem payload_recency_filter_witness:
  "''week'' \<in> set recency_filters
   \<and> inputSchema_parse
         (JObj [(''query'', JStr ''What is new?''), (''search_recency_filter'', JStr ''week'')])
       = Inr week_request
   \<and> map_of (build_payload default_config week_request) ''search_recency_filter''
       = Some (JStr ''week'')
   \<and> inputSchema_parse (JObj [(''query'', JStr ''What is the capital of France?'')])
       = Inr france_request
   \<and> map_of (build_payload default_config france_request) ''search_recency_filter'' = None"
proof -
  have a: "inputSchema_parse
         (JObj [(''query'', JStr ''What is new?''), (''search_recency_filter'', JStr ''week'')])
       = Inr week_request"
    and b: "inputSchema_parse (JObj [(''query'', JStr ''What is the capital of France?'')])
       = Inr france_request"
    by (simp_all add: inputSchema_parse_def own_prop_def z_string_def z_optional_def z_enum_def
        recency_filters_def week_request_def france_request_def)
  show ?thesis
    using a b payload_recency_filter [of week_request default_config]
      payload_recency_filter [of france_request default_config]
    by (simp add: recency_filters_def week_request_def france_request_def)
qed

text \<open>
  C6. The payload is \<^verbatim>\<open>model\<close>, \<^verbatim>\<open>messages\<close>, \<^verbatim>\<open>max_tokens\<close> and \<^verbatim>\<open>temperature\<close>,
  in this order, followed by the recency filter when one is given: the model and the
  two numbers are those of the configuration, and the messages are one message of
  the role \<^verbatim>\<open>user\<close> whose content is the query. The body of the request is
  \<^verbatim>\<open>JSON.stringify\<close> of this payload. Every call sends this request: the
  handler's result depends on the remote side only through the answer to it, and
  against a remote side that echoes what it observes of the request it receives,
  the result shows exactly this request, and so this body.
\<close>

theorem outbound_request_body:
  "build_payload parsedConfig request =
     [(''model'', JStr (model parsedConfig)),
      (''messages'', JArr [JObj [(''role'', JStr ''user''), (''content'', JStr (query request))]]),
      (''max_tokens'', JNum (maxTokens parsedConfig)),
      (''temperature'', JNum (temperature parsedConfig))]
     @ (case search_recency_filter request of
          None \<Rightarrow> []
        | Some f \<Rightarrow> if f = [] then [] else [(''search_recency_filter'', JStr f)])
   \<and> body (fetch_arguments rt parsedConfig (build_payload parsedConfig request))
       = JSON_stringify rt [] (JObj (build_payload parsedConfig request))
   \<and> search_handler rt parsedConfig fetch request
       = search_handler rt parsedConfig
           (remote_outcome (fetch (fetch_arguments rt parsedConfig (build_payload parsedConfig request))))
           request
   \<and> search_handler rt parsedConfig (echo_fetch observe) request
       = Inr (error_result (observe (fetch_arguments rt parsedConfig (build_payload parsedConfig request))))
   \<and> search_handler rt parsedConfig (echo_fetch body) request
       = Inr (error_result (JSON_stringify rt [] (JObj (build_payload parsedConfig request))))"
proof (intro conjI)
  show "build_payload parsedConfig request =
     [(''model'', JStr (model parsedConfig)),
      (''messages'', JArr [JObj [(''role'', JStr ''user''), (''content'', JStr (query request))]]),
      (''max_tokens'', JNum (maxTokens parsedConfig)),
      (''temperature'', JNum (temperature parsedConfig))]
     @ (case search_recency_filter request of
          None \<Rightarrow> []
        | Some f \<Rightarrow> if f = [] then [] else [(''search_recency_filter'', JStr f)])"
    by (simp add: build_payload_def optional_string_def split: option.split)
  show "body (fetch_arguments rt parsedConfig (build_payload parsedConfig request))
       = JSON_stringify rt [] (JObj (build_payload parsedConfig request))"
    by (simp add: fetch_arguments_def)
  show "search_handler rt parsedConfig fetch request
       = search_handler rt parsedConfig
           (remote_outcome (fetch (fetch_arguments rt parsedConfig (build_payload parsedConfig request))))
           request"
    by (rule search_handler_after_fetch [OF refl])
  show "search_handler rt parsedConfig (echo_fetch observe) request
       = Inr (error_result (observe (fetch_arguments rt parsedConfig (build_payload parsedConfig request))))"
    by (simp add: search_handler_def echo_fetch_def)
  show "search_handler rt parsedConfig (echo_fetch body) request
       = Inr (error_result (JSON_stringify rt [] (JObj (build_payload parsedConfig request))))"
    by (simp add: search_handler_def echo_fetch_def fetch_arguments_def)
qed

text \<open>
  The body that the handler sends for a query with the filter \<^verbatim>\<open>week\<close> under the
  default configuration, echoed by the remote side.
\<close>

theorem outbound_request_body_witness:
  \<open>search_handler node default_config (echo_fetch body) week_request
   = Inr (error_result
       ''{"model":"sonar-pro","messages":[{"role":"user","content":"What is new?"}],"max_tokens":8192,"temperature":0.2,"search_recency_filter":"week"}'')\<close>
proof -
  have h: \<open>JSON_stringify node [] (JObj (build_payload default_config week_request))
   = ''{"model":"sonar-pro","messages":[{"role":"user","content":"What is new?"}],"max_tokens":8192,"temperature":0.2,"search_recency_filter":"week"}''\<close>
    by (simp add: JSON_stringify_def build_payload_def default_config_def week_request_def
        optional_string_def wrap_members_def quote_json_string_def quote_char_def node_def
        print_8192 print_0_2)
  have b: "search_handler node default_config (echo_fetch body) week_request
       = Inr (error_result (JSON_stringify node [] (JObj (build_payload default_config week_request))))"
    using outbound_request_body [of default_config week_request node "remote_outcome (Inl JsOther)" body]
    by (rule conjunct2 [OF conjunct2 [OF conjunct2 [OF conjunct2]]])
  show ?thesis
    unfolding b h by (rule refl)
qed

section \<open>Determinism\<close>



section \<open>Parsing the configuration\<close>

text \<open>
  C8. A configuration that gives only the key parses to the model \<^verbatim>\<open>sonar-pro\<close>,
  8192 tokens and the temperature 0.2. Whenever a configuration parses, its model
  is \<^verbatim>\<open>sonar\<close> or \<^verbatim>\<open>sonar-pro\<close>, and each of the three settings it leaves out has
  its default. A configuration whose model is any other value does not parse, and
  the server is not created.
\<close>

theorem config_defaults_and_model:
  "configSchema_parse (JObj [(''perplexityApiKey'', JStr key)])
     = Inr \<lparr>perplexityApiKey = key, model = ''sonar-pro'', maxTokens = 8192, temperature = 2 / 10\<rparr>
   \<and> (\<forall>parsed. configSchema_parse input = Inr parsed \<longrightarrow>
         (model parsed = ''sonar'' \<or> model parsed = ''sonar-pro'')
         \<and> (\<exists>kvs. input = JObj kvs
               \<and> (map_of kvs ''model'' = None \<longrightarrow> model parsed = ''sonar-pro'')
               \<and> (map_of kvs ''maxTokens'' = None \<longrightarrow> maxTokens parsed = 8192)
               \<and> (map_of kvs ''temperature'' = None \<longrightarrow> temperature parsed = 2 / 10)))
   \<and> (\<forall>kvs v. input = JObj kvs \<and> map_of kvs ''model'' = Some v \<and> v \<noteq> JUndefined
               \<and> v \<noteq> JStr ''sonar'' \<and> v \<noteq> JStr ''sonar-pro'' \<longrightarrow>
         (\<exists>issues. configSchema_parse input = Inl issues \<and> createServer rt input = Inl issues))"
proof (intro conjI allI impI)
  show "configSchema_parse (JObj [(''perplexityApiKey'', JStr key)])
     = Inr \<lparr>perplexityApiKey = key, model = ''sonar-pro'', maxTokens = 8192, temperature = 2 / 10\<rparr>"
    by (simp add: configSchema_parse_def own_prop_def z_string_def z_default_def)
next
  fix parsed
  assume p: "configSchema_parse input = Inr parsed"
  then obtain kvs where kvs: "input = JObj kvs"
    by (cases input) (simp_all add: configSchema_parse_def)
  have m: "z_default (z_enum [''sonar'', ''sonar-pro'']) ''sonar-pro'' (own_prop kvs ''model'')
             = Inr (model parsed)"
    and t: "z_default z_number 8192 (own_prop kvs ''maxTokens'') = Inr (maxTokens parsed)"
    and c: "z_default z_number (2 / 10) (own_prop kvs ''temperature'') = Inr (temperature parsed)"
    using p unfolding kvs configSchema_parse_def
    by (auto simp add: Let_def split: sum.splits)
  show "model parsed = ''sonar'' \<or> model parsed = ''sonar-pro''"
    using m by (auto simp add: z_default_def z_enum_def split: if_splits js.splits)
  show "\<exists>kvs. input = JObj kvs
               \<and> (map_of kvs ''model'' = None \<longrightarrow> model parsed = ''sonar-pro'')
               \<and> (map_of kvs ''maxTokens'' = None \<longrightarrow> maxTokens parsed = 8192)
               \<and> (map_of kvs ''temperature'' = None \<longrightarrow> temperature parsed = 2 / 10)"
    using kvs m t c by (auto simp add: z_default_def own_prop_def)
next
  fix kvs v
  assume a: "input = JObj kvs \<and> map_of kvs ''model'' = Some v \<and> v \<noteq> JUndefined
               \<and> v \<noteq> JStr ''sonar'' \<and> v \<noteq> JStr ''sonar-pro''"
  then have "\<exists>issue. z_default (z_enum [''sonar'', ''sonar-pro'']) ''sonar-pro''
               (own_prop kvs ''model'') = Inl issue"
    by (cases v) (auto simp add: z_default_def z_enum_def own_prop_def)
  then have "\<exists>issues. configSchema_parse input = Inl issues"
    using a by (auto simp add: configSchema_parse_def Let_def split: sum.splits)
  then show "\<exists>issues. configSchema_parse input = Inl issues \<and> createServer rt input = Inl issues"
    by (auto simp add: createServer_def)
qed

text \<open>The key alone, and the key with a model that is not one of the two.\<close>

theorem config_defaults_and_model_witness:
  "configSchema_parse (JObj [(''perplexityApiKey'', JStr ''secret'')]) = Inr default_config
   \<and> model default_config = ''sonar-pro''
   \<and> maxTokens default_config = 8192
   \<and> temperature default_config = 2 / 10
   \<and> configSchema_parse
         (JObj [(''perplexityApiKey'', JStr ''secret''), (''model'', JStr ''gpt-4'')])
       = Inl [(''model'', InvalidEnumValue)]
   \<and> createServer node
         (JObj [(''perplexityApiKey'', JStr ''secret''), (''model'', JStr ''gpt-4'')])
       = Inl [(''model'', InvalidEnumValue)]"
proof -
  have a: "configSchema_parse (JObj [(''perplexityApiKey'', JStr ''secret'')]) = Inr default_config"
    using config_defaults_and_model
      [of "''secret''" "JObj [(''perplexityApiKey'', JStr ''secret'')]" node]
    by (simp add: default_config_def)
  have b: "configSchema_parse
         (JObj [(''perplexityApiKey'', JStr ''secret''), (''model'', JStr ''gpt-4'')])
       = Inl [(''model'', InvalidEnumValue)]"
    by (simp add: configSchema_parse_def own_prop_def z_string_def z_default_def z_enum_def
        z_number_def issues_at_def)
  have c: "createServer node
         (JObj [(''perplexityApiKey'', JStr ''secret''), (''model'', JStr ''gpt-4'')])
       = Inl [(''model'', InvalidEnumValue)]"
    using b config_defaults_and_model
      [of "''secret''" "JObj [(''perplexityApiKey'', JStr ''secret''), (''model'', JStr ''gpt-4'')]" node]
    by auto
  show ?thesis using a b c by (simp add: default_config_def)
qed

end
